theory Spec2Isabelle
  imports Main
begin

section \<open>The Cavium device handler of enodebd\<close>

text \<open>
  A shallow embedding of \<^verbatim>\<open>magma/enodebd/devices/cavium.py\<close>: the state map of
  \<^verbatim>\<open>CaviumHandler\<close>, the two Cavium-only protocol states, the TR data model
  \<^verbatim>\<open>CaviumTrDataModel\<close> and the configuration postprocessor.
\<close>

subsection \<open>Protocol states and the state map\<close>

text \<open>
  One constructor per state class instantiated by \<^verbatim>\<open>_init_state_map\<close>. The
  arguments are the successor state names handed to the constructor, in the order of
  the keyword arguments at the call site.
\<close>

datatype EnodebAcsState =
    DisconnectedState string
  | SendGetTransientParametersState string
  | WaitGetTransientParametersState string string string string string string
  | GetParametersState string
  | WaitGetParametersState string
  | CaviumDisableAdminEnableState string
  | CaviumWaitDisableAdminEnableState string
  | DeleteObjectsState string string
  | AddObjectsState string
  | SetParameterValuesNotAdminState string
  | WaitSetParameterValuesState string
  | SendRebootState string
  | WaitRebootResponseState string
  | WaitInformMRebootState string string
  | UnexpectedInformState string
  | ErrorState

text \<open>The successor names a state instance was constructed with.\<close>

fun successors :: "EnodebAcsState \<Rightarrow> string list" where
  "successors (DisconnectedState when_done) = [when_done]"
| "successors (SendGetTransientParametersState when_done) = [when_done]"
| "successors (WaitGetTransientParametersState when_get when_get_obj_params
       when_delete when_add when_set when_skip) =
     [when_get, when_get_obj_params, when_delete, when_add, when_set, when_skip]"
| "successors (GetParametersState when_done) = [when_done]"
| "successors (WaitGetParametersState when_done) = [when_done]"
| "successors (CaviumDisableAdminEnableState when_done) = [when_done]"
| "successors (CaviumWaitDisableAdminEnableState when_done) = [when_done]"
| "successors (DeleteObjectsState when_add when_skip) = [when_add, when_skip]"
| "successors (AddObjectsState when_done) = [when_done]"
| "successors (SetParameterValuesNotAdminState when_done) = [when_done]"
| "successors (WaitSetParameterValuesState when_done) = [when_done]"
| "successors (SendRebootState when_done) = [when_done]"
| "successors (WaitRebootResponseState when_done) = [when_done]"
| "successors (WaitInformMRebootState when_done when_timeout) = [when_done, when_timeout]"
| "successors (UnexpectedInformState when_done) = [when_done]"
| "successors ErrorState = []"

text \<open>
  A Python dict, kept in insertion order: storing under a key that is present
  replaces the value in place, storing under a new key appends the item.
\<close>

fun dict_set :: "('k \<times> 'v) list \<Rightarrow> 'k \<Rightarrow> 'v \<Rightarrow> ('k \<times> 'v) list" where
  "dict_set [] k v = [(k, v)]"
| "dict_set ((k', v') # kvs) k v =
     (if k' = k then (k, v) # kvs else (k', v') # dict_set kvs k v)"

text \<open>A dict display \<^verbatim>\<open>{k1: v1, k2: v2, ...}\<close> stores its items from left to right.\<close>

definition dict_of :: "('k \<times> 'v) list \<Rightarrow> ('k \<times> 'v) list" where
  "dict_of items = foldl (\<lambda>d (k, v). dict_set d k v) [] items"

definition dict_get :: "('k \<times> 'v) list \<Rightarrow> 'k \<Rightarrow> 'v option" where
  "dict_get d k = map_of d k"

definition dict_keys :: "('k \<times> 'v) list \<Rightarrow> 'k list" where
  "dict_keys d = map fst d"

text \<open>\<^verbatim>\<open>CaviumHandler._init_state_map\<close>: the value assigned to \<^verbatim>\<open>self._state_map\<close>.\<close>

definition init_state_map :: "(string \<times> EnodebAcsState) list" where
  "init_state_map = dict_of
    [(''disconnected'', DisconnectedState ''get_transient_params''),
     (''get_transient_params'', SendGetTransientParametersState ''wait_get_transient_params''),
     (''wait_get_transient_params'',
        WaitGetTransientParametersState ''get_params'' ''get_obj_params'' ''delete_objs''
          ''add_objs'' ''set_params'' ''get_transient_params''),
     (''get_params'', GetParametersState ''wait_get_parameters''),
     (''wait_get_params'', WaitGetParametersState ''disable_admin''),
     (''disable_admin'', CaviumDisableAdminEnableState ''wait_disable_admin''),
     (''wait_disable_admin'', CaviumWaitDisableAdminEnableState ''delete_objs''),
     (''delete_objs'', DeleteObjectsState ''add_objs'' ''set_params''),
     (''add_objs'', AddObjectsState ''set_params''),
     (''set_params'', SetParameterValuesNotAdminState ''wait_set_params''),
     (''wait_set_params'', WaitSetParameterValuesState ''get_transient_params''),
     (''reboot'', SendRebootState ''wait_reboot''),
     (''wait_reboot'', WaitRebootResponseState ''wait_post_reboot_inform''),
     (''wait_post_reboot_inform'', WaitInformMRebootState ''wait_reboot_delay'' ''disconnected''),
     (''unexpected_inform'', UnexpectedInformState ''wait_empty''),
     (''unexpected_fault'', ErrorState)]"

text \<open>All successor names that occur in a state map, and those that are not keys of it.\<close>

definition targets :: "(string \<times> EnodebAcsState) list \<Rightarrow> string list" where
  "targets m = concat (map (\<lambda>(name, st). successors st) m)"

definition dangling :: "(string \<times> EnodebAcsState) list \<Rightarrow> string list" where
  "dangling m = remdups (filter (\<lambda>t. dict_get m t = None) (targets m))"

subsection \<open>Errors, values and string formatting\<close>

datatype error =
    Tr069Error string
  | ConfigurationError string
  | AttributeError string

text \<open>Canonical configuration values; \<open>str_value\<close> is Python's \<^verbatim>\<open>str()\<close> on them.\<close>

datatype pyvalue = VBool bool | VInt int | VStr string

definition digit_char :: "nat \<Rightarrow> char" where
  "digit_char d = ''0123456789'' ! (d mod 10)"

function str_nat :: "nat \<Rightarrow> string" where
  "str_nat n = (if n < 10 then [digit_char n] else str_nat (n div 10) @ [digit_char (n mod 10)])"
  by pat_completeness auto
termination
  by (relation "measure (\<lambda>n. n)") auto

declare str_nat.simps [simp del]

text \<open>The conversion \<^verbatim>\<open>'%d' % i\<close> of a Python int.\<close>

definition str_int :: "int \<Rightarrow> string" where
  "str_int i = (if i < 0 then CHR ''-'' # str_nat (nat (- i)) else str_nat (nat i))"


subsection \<open>Messages\<close>

text \<open>
  Modelled from the spec: the message classes of \<^verbatim>\<open>magma.enodebd.tr069.models\<close>
  are not part of the excerpt. The inbound kinds are those of the spec's external
  interfaces (Inform, GetParameterValuesResponse, SetParameterValuesResponse, Fault with
  fault code, fault string and optional per-parameter faults, RebootResponse) together
  with the \<^verbatim>\<open>DummyInput\<close> the source tests for. A per-parameter fault is the triple
  (ParameterName, FaultCode, FaultString) that the source logs.
\<close>

datatype message =
    is_Fault: Fault (FaultCode: int) (FaultString: string)
      (SetParameterValuesFault: "(string \<times> int \<times> string) list option")
  | is_SetParameterValuesResponse: SetParameterValuesResponse (Status: int)
  | is_DummyInput: DummyInput
  | Inform "string list" string
  | GetParameterValuesResponse "(string \<times> string) list"
  | RebootResponse

text \<open>
  The outbound request built by \<^verbatim>\<open>get_msg\<close>, with the fields the source assigns:
  \<^verbatim>\<open>SetParameterValues.ParameterList\<close>, its \<^verbatim>\<open>arrayType\<close> and
  \<^verbatim>\<open>ParameterValueStruct\<close> list, and per entry \<^verbatim>\<open>Name\<close>, \<^verbatim>\<open>Value.type\<close>
  and \<^verbatim>\<open>Value.Data\<close>.
\<close>

datatype anySimpleType = anySimpleType (type: string) (Data: string)

datatype ParameterValueStruct = ParameterValueStruct (Name: string) (Value: anySimpleType)

datatype ParameterValueList =
  ParameterValueList (arrayType: string) (ParameterValueStructs: "ParameterValueStruct list")

datatype SetParameterValues = SetParameterValues (ParameterList: ParameterValueList)

text \<open>The result tuples \<^verbatim>\<open>AcsReadMsgResult(msg_handled, next_state)\<close> and
  \<^verbatim>\<open>AcsMsgAndTransition(msg, next_state)\<close>.\<close>

datatype AcsReadMsgResult = AcsReadMsgResult (msg_handled: bool) (next_state: "string option")


subsection \<open>The Cavium-only states\<close>

text \<open>\<^verbatim>\<open>CaviumDisableAdminEnableState.read_msg\<close>.\<close>

definition CaviumDisableAdminEnableState_read_msg :: "message \<Rightarrow> error + AcsReadMsgResult" where
  "CaviumDisableAdminEnableState_read_msg message =
     (if \<not> is_DummyInput message then Inr (AcsReadMsgResult False None)
      else Inr (AcsReadMsgResult True None))"

text \<open>
  \<^verbatim>\<open>CaviumWaitDisableAdminEnableState.read_msg\<close> of a state constructed with
  \<^verbatim>\<open>when_done = done_transition\<close>. A raised \<^verbatim>\<open>Tr069Error\<close> is the \<open>Inl\<close> branch
  with the exception's message. The logging calls of the Fault branch have no effect on
  the result and are left out.
\<close>

definition CaviumWaitDisableAdminEnableState_read_msg ::
    "string \<Rightarrow> message \<Rightarrow> error + AcsReadMsgResult" where
  "CaviumWaitDisableAdminEnableState_read_msg done_transition message =
     (if is_Fault message then
        Inl (Tr069Error (''Received Fault in response to SetParameterValues (faultstring = ''
                          @ FaultString message @ '')''))
      else if \<not> is_SetParameterValuesResponse message then
        Inr (AcsReadMsgResult False None)
      else if Status message \<noteq> 0 then
        Inl (Tr069Error (''Received SetParameterValuesResponse with Status=''
                          @ str_int (Status message)))
      else Inr (AcsReadMsgResult True (Some done_transition)))"

subsection \<open>The handler\<close>

record CaviumHandler =
  state_map :: "(string \<times> EnodebAcsState) list"
  state :: EnodebAcsState

text \<open>
  \<^verbatim>\<open>CaviumHandler.reboot_asap\<close>. The method \<^verbatim>\<open>transition\<close> it calls is inherited
  from \<^verbatim>\<open>BasicEnodebAcsStateMachine\<close>, which is defined outside the excerpt, and is
  a parameter here.
\<close>

definition reboot_asap ::
    "(CaviumHandler \<Rightarrow> string \<Rightarrow> error + CaviumHandler) \<Rightarrow> CaviumHandler \<Rightarrow> error + CaviumHandler" where
  "reboot_asap transition acs = transition acs ''reboot''"

text \<open>\<^verbatim>\<open>CaviumHandler.is_enodeb_connected\<close>.\<close>

fun is_DisconnectedState :: "EnodebAcsState \<Rightarrow> bool" where
  "is_DisconnectedState (DisconnectedState when_done) = True"
| "is_DisconnectedState st = False"

definition is_enodeb_connected :: "CaviumHandler \<Rightarrow> bool" where
  "is_enodeb_connected acs = (\<not> is_DisconnectedState (state acs))"

subsection \<open>The TR data model\<close>

text \<open>
  Modelled from the spec: \<^verbatim>\<open>ParameterName\<close>, \<^verbatim>\<open>TrParameterType\<close> and
  \<^verbatim>\<open>TrParam\<close> come from \<^verbatim>\<open>magma.enodebd.data_models\<close>, which is not part of
  the excerpt. A parameter key is an opaque identifier; the keys of list entries carry
  their index (the source writes \<^verbatim>\<open>ParameterName.PLMN_N % i\<close>). The constructors
  are the names the source uses. A descriptor is the tuple of path, list flag, wire type
  and object flag, filled positionally by the source.
\<close>

datatype ParameterName =
    DEVICE | FAP_SERVICE
  | GPS_STATUS | GPS_LAT | GPS_LONG | SW_VERSION
  | DUPLEX_MODE_CAPABILITY | BAND_CAPABILITY
  | EARFCNDL | EARFCNUL | BAND | PCI | DL_BANDWIDTH | UL_BANDWIDTH
  | ADMIN_STATE | OP_STATE | RF_TX_STATUS
  | CELL_RESERVED | CELL_BARRED
  | MME_IP | MME_PORT | NUM_PLMNS | PLMN | TAC | IP_SEC_ENABLE | PERIODIC_INFORM_INTERVAL
  | PERF_MGMT_ENABLE | PERF_MGMT_UPLOAD_INTERVAL | PERF_MGMT_UPLOAD_URL
  | PLMN_N int
  | PLMN_N_CELL_RESERVED int
  | PLMN_N_ENABLE int
  | PLMN_N_PRIMARY int
  | PLMN_N_PLMNID int

text \<open>\<^verbatim>\<open>TrParameterType.INT\<close> is written \<open>INT_TYPE\<close>: \<open>INT\<close> is reserved syntax.\<close>

datatype TrParameterType = STRING | INT_TYPE | UNSIGNED_INT | BOOLEAN | OBJECT

datatype TrParam =
  TrParam (path: string) (isList: bool) (wireType: TrParameterType) (isObject: bool)

definition DEVICE_PATH :: string where
  "DEVICE_PATH = ''Device.''"

definition FAPSERVICE_PATH :: string where
  "FAPSERVICE_PATH = DEVICE_PATH @ ''Services.FAPService.1.''"

text \<open>The items of the dict display that \<^verbatim>\<open>PARAMETERS\<close> is first bound to, as written.\<close>

definition PARAMETERS_items :: "(ParameterName \<times> TrParam) list" where
  "PARAMETERS_items =
    [(DEVICE, TrParam DEVICE_PATH True OBJECT False),
     (FAP_SERVICE, TrParam FAPSERVICE_PATH True OBJECT False),
     (GPS_STATUS, TrParam (DEVICE_PATH @ ''FAP.GPS.ContinuousGPSStatus.GotFix'') True BOOLEAN False),
     (GPS_LAT, TrParam (DEVICE_PATH @ ''FAP.GPS.LockedLatitude'') True INT_TYPE False),
     (GPS_LONG, TrParam (DEVICE_PATH @ ''FAP.GPS.LockedLongitude'') True INT_TYPE False),
     (SW_VERSION, TrParam (DEVICE_PATH @ ''DeviceInfo.SoftwareVersion'') True STRING False),
     (DUPLEX_MODE_CAPABILITY,
        TrParam (FAPSERVICE_PATH @ ''Capabilities.LTE.DuplexMode'') True STRING False),
     (BAND_CAPABILITY,
        TrParam (FAPSERVICE_PATH @ ''Capabilities.LTE.BandsSupported'') True UNSIGNED_INT False),
     (EARFCNDL, TrParam (FAPSERVICE_PATH @ ''CellConfig.LTE.RAN.RF.EARFCNDL'') True UNSIGNED_INT False),
     (EARFCNUL, TrParam (FAPSERVICE_PATH @ ''CellConfig.LTE.RAN.RF.EARFCNUL'') True UNSIGNED_INT False),
     (BAND,
        TrParam (FAPSERVICE_PATH @ ''CellConfig.LTE.RAN.RF.FreqBandIndicator'') True UNSIGNED_INT False),
     (PCI, TrParam (FAPSERVICE_PATH @ ''CellConfig.LTE.RAN.RF.PhyCellID'') True STRING False),
     (DL_BANDWIDTH, TrParam (FAPSERVICE_PATH @ ''CellConfig.LTE.RAN.RF.DLBandwidth'') True STRING False),
     (UL_BANDWIDTH, TrParam (FAPSERVICE_PATH @ ''CellConfig.LTE.RAN.RF.ULBandwidth'') True STRING False),
     (ADMIN_STATE, TrParam (FAPSERVICE_PATH @ ''FAPControl.LTE.AdminState'') False BOOLEAN False),
     (OP_STATE, TrParam (FAPSERVICE_PATH @ ''FAPControl.LTE.OpState'') True BOOLEAN False),
     (RF_TX_STATUS, TrParam (FAPSERVICE_PATH @ ''FAPControl.LTE.RFTxStatus'') True BOOLEAN False),
     (CELL_RESERVED,
        TrParam (FAPSERVICE_PATH @ ''CellConfig.LTE.RAN.CellRestriction.CellReservedForOperatorUse'')
          True BOOLEAN False),
     (CELL_BARRED,
        TrParam (FAPSERVICE_PATH @ ''CellConfig.LTE.RAN.CellRestriction.CellBarred'')
          True BOOLEAN False),
     (MME_IP,
        TrParam (FAPSERVICE_PATH @ ''FAPControl.LTE.Gateway.S1SigLinkServerList'') True STRING False),
     (MME_PORT,
        TrParam (FAPSERVICE_PATH @ ''FAPControl.LTE.Gateway.S1SigLinkPort'') True UNSIGNED_INT False),
     (NUM_PLMNS,
        TrParam (FAPSERVICE_PATH @ ''CellConfig.LTE.EPC.PLMNListNumberOfEntries'')
          True UNSIGNED_INT False),
     (PLMN, TrParam (FAPSERVICE_PATH @ ''CellConfig.LTE.EPC.PLMNList.'') True OBJECT False),
     (TAC, TrParam (FAPSERVICE_PATH @ ''CellConfig.LTE.EPC.TAC'') True UNSIGNED_INT False),
     (IP_SEC_ENABLE, TrParam (DEVICE_PATH @ ''IPsec.Enable'') False BOOLEAN False),
     (PERIODIC_INFORM_INTERVAL,
        TrParam (DEVICE_PATH @ ''ManagementServer.PeriodicInformInterval'') False UNSIGNED_INT False),
     (PERF_MGMT_ENABLE,
        TrParam (FAPSERVICE_PATH @ ''PerfMgmt.Config.1.Enable'') False BOOLEAN False),
     (PERF_MGMT_UPLOAD_INTERVAL,
        TrParam (FAPSERVICE_PATH @ ''PerfMgmt.Config.1.PeriodicUploadInterval'')
          False UNSIGNED_INT False),
     (PERF_MGMT_UPLOAD_URL,
        TrParam (FAPSERVICE_PATH @ ''PerfMgmt.Config.1.URL'') False STRING False)]"

definition PARAMETERS_display :: "(ParameterName \<times> TrParam) list" where
  "PARAMETERS_display = dict_of PARAMETERS_items"

definition NUM_PLMNS_IN_CONFIG :: int where
  "NUM_PLMNS_IN_CONFIG = 6"

text \<open>Python's \<^verbatim>\<open>range(a, b)\<close>.\<close>

definition range :: "int \<Rightarrow> int \<Rightarrow> int list" where
  "range a b = [a..b - 1]"

text \<open>
  The body of the loop that adds the numbered PLMN entries: for index \<open>i\<close> it stores
  five entries, in this order.
\<close>

definition plmn_entries :: "int \<Rightarrow> (ParameterName \<times> TrParam) list" where
  "plmn_entries i =
    [(PLMN_N i,
        TrParam (FAPSERVICE_PATH @ ''CellConfig.LTE.EPC.PLMNList.'' @ str_int i @ ''.'')
          True OBJECT False),
     (PLMN_N_CELL_RESERVED i,
        TrParam (FAPSERVICE_PATH @ ''CellConfig.LTE.EPC.PLMNList.'' @ str_int i
                   @ ''.CellReservedForOperatorUse'') True BOOLEAN False),
     (PLMN_N_ENABLE i,
        TrParam (FAPSERVICE_PATH @ ''CellConfig.LTE.EPC.PLMNList.'' @ str_int i @ ''.Enable'')
          True BOOLEAN False),
     (PLMN_N_PRIMARY i,
        TrParam (FAPSERVICE_PATH @ ''CellConfig.LTE.EPC.PLMNList.'' @ str_int i @ ''.IsPrimary'')
          True BOOLEAN False),
     (PLMN_N_PLMNID i,
        TrParam (FAPSERVICE_PATH @ ''CellConfig.LTE.EPC.PLMNList.'' @ str_int i @ ''.PLMNID'')
          True STRING False)]"

definition add_plmn :: "(ParameterName \<times> TrParam) list \<Rightarrow> int \<Rightarrow> (ParameterName \<times> TrParam) list" where
  "add_plmn params i = foldl (\<lambda>d (k, v). dict_set d k v) params (plmn_entries i)"

definition PARAMETERS :: "(ParameterName \<times> TrParam) list" where
  "PARAMETERS = foldl add_plmn PARAMETERS_display (range 1 (NUM_PLMNS_IN_CONFIG + 1))"

text \<open>\<^verbatim>\<open>CaviumTrDataModel.get_parameter\<close>: \<^verbatim>\<open>PARAMETERS.get(param_name)\<close>.\<close>

definition get_parameter :: "ParameterName \<Rightarrow> TrParam option" where
  "get_parameter param_name = dict_get PARAMETERS param_name"


definition get_num_plmns :: int where
  "get_num_plmns = NUM_PLMNS_IN_CONFIG"



text \<open>\<^verbatim>\<open>CaviumTrDataModel.get_numbered_param_names\<close>: one store per index.\<close>

definition add_numbered ::
    "(ParameterName \<times> ParameterName list) list \<Rightarrow> int \<Rightarrow> (ParameterName \<times> ParameterName list) list" where
  "add_numbered names i =
     (let params = [];
          params = params @ [PLMN_N_CELL_RESERVED i];
          params = params @ [PLMN_N_ENABLE i];
          params = params @ [PLMN_N_PRIMARY i];
          params = params @ [PLMN_N_PLMNID i]
      in dict_set names (PLMN_N i) params)"

definition get_numbered_param_names :: "(ParameterName \<times> ParameterName list) list" where
  "get_numbered_param_names = foldl add_numbered [] (range 1 (NUM_PLMNS_IN_CONFIG + 1))"




subsection \<open>The configuration postprocessor\<close>

text \<open>
  Modelled from the spec: \<^verbatim>\<open>EnodebConfiguration\<close> is defined outside the excerpt. A
  configuration snapshot is an ordered mapping from parameter key to canonical value.
\<close>

type_synonym EnodebConfiguration = "(ParameterName \<times> pyvalue) list"

text \<open>
  Modelled from the spec: \<^verbatim>\<open>EnodebConfiguration.set_parameter\<close> and the lookup of a
  key are defined outside the excerpt. Setting a parameter stores the value under the key
  in the snapshot's mapping; the lookup reads the mapping.
\<close>

definition set_parameter :: "EnodebConfiguration \<Rightarrow> ParameterName \<Rightarrow> pyvalue \<Rightarrow> EnodebConfiguration" where
  "set_parameter cfg param_name v = dict_set cfg param_name v"

definition get_config_parameter :: "EnodebConfiguration \<Rightarrow> ParameterName \<Rightarrow> pyvalue option" where
  "get_config_parameter cfg param_name = dict_get cfg param_name"

text \<open>\<^verbatim>\<open>CaviumTrConfigurationInitializer.postprocess\<close>; the mutated snapshot is returned.\<close>

definition postprocess :: "EnodebConfiguration \<Rightarrow> EnodebConfiguration" where
  "postprocess desired_cfg =
     (let cfg1 = set_parameter desired_cfg CELL_BARRED (VBool True)
      in set_parameter cfg1 ADMIN_STATE (VBool True))"

section \<open>Properties\<close>

subsection \<open>Dicts\<close>

lemma dict_get_dict_set: "dict_get (dict_set d k v) k' = (if k' = k then Some v else dict_get d k')"
  by (induction d) (auto simp: dict_get_def)

lemma dict_set_present: "dict_get d k = Some v \<Longrightarrow> dict_set d k v = d"
  by (induction d) (auto simp: dict_get_def split: if_splits)

lemma dict_keys_dict_set: "set (dict_keys (dict_set d k v)) = insert k (set (dict_keys d))"
  unfolding dict_keys_def by (induction d) force+

lemma distinct_dict_set: "distinct (dict_keys d) \<Longrightarrow> distinct (dict_keys (dict_set d k v))"
proof (induction d)
  case Nil
  then show ?case by (simp add: dict_keys_def)
next
  case (Cons kv d)
  have "set (map fst (dict_set d k v)) = insert k (set (map fst d))"
    using dict_keys_dict_set [of d k v] by (simp add: dict_keys_def)
  with Cons show ?case
    by (cases kv) (auto simp: dict_keys_def)
qed

subsection \<open>The state map\<close>

text \<open>
  C1. Every successor name used in the Cavium state map should be a key of the map. The
  state map built by \<^verbatim>\<open>_init_state_map\<close> does not have this property: the state
  registered under \<^verbatim>\<open>get_params\<close> names the successor \<^verbatim>\<open>wait_get_parameters\<close>,
  while the state meant is registered under \<^verbatim>\<open>wait_get_params\<close>; in all, four
  successor names are not keys of the map.
\<close>

theorem init_state_map_dangling:
  "dict_get init_state_map ''get_params'' = Some (GetParametersState ''wait_get_parameters'')
   \<and> ''wait_get_parameters'' \<in> set (successors (GetParametersState ''wait_get_parameters''))
   \<and> ''wait_get_parameters'' \<notin> set (dict_keys init_state_map)
   \<and> ''wait_get_params'' \<in> set (dict_keys init_state_map)
   \<and> dangling init_state_map =
       [''get_obj_params'', ''wait_get_parameters'', ''wait_reboot_delay'', ''wait_empty'']"
  by code_simp

subsection \<open>Waiting for the response to the admin-disable request\<close>

text \<open>
  C3. A SetParameterValuesResponse with a non-zero status raises a protocol error, one
  with status 0 is accepted with the done transition, and no other message is accepted.
\<close>

theorem wait_disable_admin_status:
  "CaviumWaitDisableAdminEnableState_read_msg done_transition (SetParameterValuesResponse st) =
     (if st \<noteq> 0
      then Inl (Tr069Error (''Received SetParameterValuesResponse with Status='' @ str_int st))
      else Inr (AcsReadMsgResult True (Some done_transition)))
   \<and> ((\<exists>r. CaviumWaitDisableAdminEnableState_read_msg done_transition m = Inr r \<and> msg_handled r)
        = (m = SetParameterValuesResponse 0))
   \<and> ((CaviumWaitDisableAdminEnableState_read_msg done_transition m
          = Inr (AcsReadMsgResult True (Some done_transition)))
        = (m = SetParameterValuesResponse 0))"
  by (cases m) (auto simp: CaviumWaitDisableAdminEnableState_read_msg_def)

theorem wait_disable_admin_status_witness:
  "CaviumWaitDisableAdminEnableState_read_msg ''delete_objs'' (SetParameterValuesResponse 1)
     = Inl (Tr069Error ''Received SetParameterValuesResponse with Status=1'')
   \<and> CaviumWaitDisableAdminEnableState_read_msg ''delete_objs'' (SetParameterValuesResponse 0)
     = Inr (AcsReadMsgResult True (Some ''delete_objs''))"
proof -
  have s: "str_int 1 = ''1''"
    by code_simp
  show ?thesis
    using wait_disable_admin_status [of "''delete_objs''" 1 DummyInput]
      wait_disable_admin_status [of "''delete_objs''" 0 DummyInput]
    by (simp add: s)
qed

text \<open>
  C4, as stated. The error raised for a Fault should carry the fault code. It does not:
  two Faults that differ in the fault code only raise the same error.
\<close>

theorem fault_code_dropped:
  "FaultCode (Fault 9001 ''Request denied'' None) \<noteq> FaultCode (Fault 9002 ''Request denied'' None)
   \<and> CaviumWaitDisableAdminEnableState_read_msg ''delete_objs'' (Fault 9001 ''Request denied'' None)
     = CaviumWaitDisableAdminEnableState_read_msg ''delete_objs'' (Fault 9002 ''Request denied'' None)
   \<and> CaviumWaitDisableAdminEnableState_read_msg ''delete_objs'' (Fault 9001 ''Request denied'' None)
     = Inl (Tr069Error
         ''Received Fault in response to SetParameterValues (faultstring = Request denied)'')"
  by (simp add: CaviumWaitDisableAdminEnableState_read_msg_def)

text \<open>
  C4, amended. A Fault is recognised before the type of the expected response is looked
  at: every Fault raises a protocol error, whatever its other fields. The error's text
  holds the fault string of the message verbatim; the fault code and the per-parameter
  faults are not part of it.
\<close>

theorem wait_disable_admin_fault:
  "CaviumWaitDisableAdminEnableState_read_msg done_transition (Fault code fault_string faults) =
     Inl (Tr069Error (''Received Fault in response to SetParameterValues (faultstring = ''
                       @ fault_string @ '')''))"
  by (simp add: CaviumWaitDisableAdminEnableState_read_msg_def)

subsection \<open>The postprocessor\<close>

text \<open>
  C5. After \<^verbatim>\<open>postprocess\<close>, the snapshot maps \<^verbatim>\<open>CELL_BARRED\<close> and
  \<^verbatim>\<open>ADMIN_STATE\<close> to True, whatever it held before.
\<close>

theorem postprocess_forces_flags:
  "get_config_parameter (postprocess S) CELL_BARRED = Some (VBool True)
   \<and> get_config_parameter (postprocess S) ADMIN_STATE = Some (VBool True)"
  by (simp add: postprocess_def set_parameter_def get_config_parameter_def dict_get_dict_set)

text \<open>C6. Applying \<^verbatim>\<open>postprocess\<close> twice gives the same snapshot as applying it once.\<close>

theorem postprocess_idempotent: "postprocess (postprocess S) = postprocess S"
proof -
  let ?T = "postprocess S"
  have barred: "dict_get ?T CELL_BARRED = Some (VBool True)"
    by (simp add: postprocess_def set_parameter_def dict_get_dict_set)
  have admin: "dict_get ?T ADMIN_STATE = Some (VBool True)"
    by (simp add: postprocess_def set_parameter_def dict_get_dict_set)
  have "set_parameter ?T CELL_BARRED (VBool True) = ?T"
    using barred by (simp add: set_parameter_def dict_set_present)
  moreover have "set_parameter ?T ADMIN_STATE (VBool True) = ?T"
    using admin by (simp add: set_parameter_def dict_set_present)
  ultimately show ?thesis
    by (simp add: postprocess_def [of ?T])
qed

subsection \<open>The parameter catalogue\<close>

lemma dict_set_new: "k \<notin> set (dict_keys d) \<Longrightarrow> dict_set d k v = d @ [(k, v)]"
  by (induction d) (auto simp: dict_keys_def)

lemma foldl_dict_set_distinct:
  "distinct (dict_keys d @ map fst items) \<Longrightarrow>
     foldl (\<lambda>d (k, v). dict_set d k v) d items = d @ items"
proof (induction items arbitrary: d)
  case Nil
  then show ?case by simp
next
  case (Cons kv items)
  obtain k v where kv: "kv = (k, v)" by (cases kv)
  from Cons.prems kv have new: "k \<notin> set (dict_keys d)"
    by auto
  from Cons.prems kv have "distinct (dict_keys (d @ [(k, v)]) @ map fst items)"
    by (auto simp: dict_keys_def)
  then have "foldl (\<lambda>d (k, v). dict_set d k v) (d @ [(k, v)]) items = (d @ [(k, v)]) @ items"
    by (rule Cons.IH)
  with new kv show ?case
    by (simp add: dict_set_new)
qed

lemma foldl_add_plmn:
  "foldl add_plmn d is = foldl (\<lambda>d (k, v). dict_set d k v) d (concat (map plmn_entries is))"
  by (induction "is" arbitrary: d) (simp_all add: add_plmn_def)

lemma str_int_digits:
  "str_int 1 = ''1''" "str_int 2 = ''2''" "str_int 3 = ''3''"
  "str_int 4 = ''4''" "str_int 5 = ''5''" "str_int 6 = ''6''"
  by code_simp+

lemma range_plmns: "range 1 (NUM_PLMNS_IN_CONFIG + 1) = [1, 2, 3, 4, 5, 6]"
  by code_simp

lemma PARAMETERS_keys_distinct:
  "distinct (map fst (PARAMETERS_items @ concat (map plmn_entries (range 1 (NUM_PLMNS_IN_CONFIG + 1)))))"
  unfolding range_plmns by (simp add: PARAMETERS_items_def plmn_entries_def)

lemma PARAMETERS_all_items:
  "PARAMETERS = PARAMETERS_items @ concat (map plmn_entries (range 1 (NUM_PLMNS_IN_CONFIG + 1)))"
proof -
  let ?rest = "concat (map plmn_entries (range 1 (NUM_PLMNS_IN_CONFIG + 1)))"
  have "PARAMETERS = foldl (\<lambda>d (k, v). dict_set d k v) [] (PARAMETERS_items @ ?rest)"
    by (simp add: PARAMETERS_def PARAMETERS_display_def dict_of_def foldl_add_plmn)
  also have "\<dots> = [] @ (PARAMETERS_items @ ?rest)"
    by (rule foldl_dict_set_distinct) (use PARAMETERS_keys_distinct in \<open>simp add: dict_keys_def\<close>)
  finally show ?thesis by simp
qed

lemma PARAMETERS_distinct_keys: "distinct (dict_keys PARAMETERS)"
  using PARAMETERS_keys_distinct by (simp only: PARAMETERS_all_items dict_keys_def)

lemma PARAMETERS_distinct_paths: "distinct (map (\<lambda>(k, d). path d) PARAMETERS)"
  unfolding PARAMETERS_all_items range_plmns
  by (simp add: PARAMETERS_items_def plmn_entries_def str_int_digits FAPSERVICE_PATH_def
      DEVICE_PATH_def)

lemma get_parameter_member: "(k, d) \<in> set PARAMETERS \<Longrightarrow> get_parameter k = Some d"
  using PARAMETERS_distinct_keys by (simp add: get_parameter_def dict_get_def dict_keys_def)

lemma PARAMETERS_items_member: "kd \<in> set PARAMETERS_items \<Longrightarrow> kd \<in> set PARAMETERS"
  by (simp add: PARAMETERS_all_items)

lemma plmn_entries_member:
  "1 \<le> i \<Longrightarrow> i \<le> NUM_PLMNS_IN_CONFIG \<Longrightarrow> kd \<in> set (plmn_entries i) \<Longrightarrow> kd \<in> set PARAMETERS"
  by (auto simp: PARAMETERS_all_items range_def)

lemma admin_state_descr:
  "get_parameter ADMIN_STATE = Some (TrParam (FAPSERVICE_PATH @ ''FAPControl.LTE.AdminState'') False BOOLEAN False)"
  by (rule get_parameter_member, rule PARAMETERS_items_member) (simp add: PARAMETERS_items_def)













text \<open>
  C9. In \<^verbatim>\<open>PARAMETERS\<close> every key has exactly one descriptor, and no two keys,
  the numbered PLMN keys included, share a path.
\<close>

theorem PARAMETERS_unique:
  "distinct (dict_keys PARAMETERS)
   \<and> distinct (map (\<lambda>(k, d). path d) PARAMETERS)
   \<and> (\<forall>k d d'. (k, d) \<in> set PARAMETERS \<and> (k, d') \<in> set PARAMETERS \<longrightarrow> d = d')
   \<and> (\<forall>k k' d d'. get_parameter k = Some d \<and> get_parameter k' = Some d' \<and> k \<noteq> k'
         \<longrightarrow> path d \<noteq> path d')"
proof (intro conjI allI impI)
  show "distinct (dict_keys PARAMETERS)"
    by (rule PARAMETERS_distinct_keys)
  show "distinct (map (\<lambda>(k, d). path d) PARAMETERS)"
    by (rule PARAMETERS_distinct_paths)
next
  fix k d d'
  assume "(k, d) \<in> set PARAMETERS \<and> (k, d') \<in> set PARAMETERS"
  then have "get_parameter k = Some d" "get_parameter k = Some d'"
    by (simp_all add: get_parameter_member)
  then show "d = d'"
    by simp
next
  fix k k' d d'
  assume h: "get_parameter k = Some d \<and> get_parameter k' = Some d' \<and> k \<noteq> k'"
  then have m: "(k, d) \<in> set PARAMETERS" "(k', d') \<in> set PARAMETERS"
    by (auto simp: get_parameter_def dict_get_def dest: map_of_SomeD)
  have inj: "inj_on (\<lambda>(k, d). path d) (set PARAMETERS)"
    using PARAMETERS_distinct_paths by (simp add: distinct_map)
  show "path d \<noteq> path d'"
  proof
    assume "path d = path d'"
    then have "(\<lambda>(k, d). path d) (k, d) = (\<lambda>(k, d). path d) (k', d')"
      by simp
    then have "(k, d) = (k', d')"
      by (rule inj_onD [OF inj _ m])
    with h show False
      by simp
  qed
qed

theorem PARAMETERS_unique_witness:
  "get_parameter ADMIN_STATE
     = Some (TrParam (FAPSERVICE_PATH @ ''FAPControl.LTE.AdminState'') False BOOLEAN False)
   \<and> get_parameter (PLMN_N 2)
     = Some (TrParam (FAPSERVICE_PATH @ ''CellConfig.LTE.EPC.PLMNList.'' @ str_int 2 @ ''.'')
               True OBJECT False)
   \<and> ADMIN_STATE \<noteq> PLMN_N 2
   \<and> FAPSERVICE_PATH @ ''FAPControl.LTE.AdminState''
       \<noteq> FAPSERVICE_PATH @ ''CellConfig.LTE.EPC.PLMNList.'' @ str_int 2 @ ''.''"
proof -
  have a: "get_parameter ADMIN_STATE
     = Some (TrParam (FAPSERVICE_PATH @ ''FAPControl.LTE.AdminState'') False BOOLEAN False)"
    by (rule admin_state_descr)
  have p: "get_parameter (PLMN_N 2)
     = Some (TrParam (FAPSERVICE_PATH @ ''CellConfig.LTE.EPC.PLMNList.'' @ str_int 2 @ ''.'')
               True OBJECT False)"
    by (rule get_parameter_member, rule plmn_entries_member [of 2])
      (simp_all add: NUM_PLMNS_IN_CONFIG_def plmn_entries_def)
  have "path (TrParam (FAPSERVICE_PATH @ ''FAPControl.LTE.AdminState'') False BOOLEAN False)
      \<noteq> path (TrParam (FAPSERVICE_PATH @ ''CellConfig.LTE.EPC.PLMNList.'' @ str_int 2 @ ''.'')
               True OBJECT False)"
    using PARAMETERS_unique a p by blast
  with a p show ?thesis
    by simp
qed

text \<open>
  C10. \<^verbatim>\<open>get_parameter\<close> never fails: for a key of \<^verbatim>\<open>PARAMETERS\<close> it
  returns the one descriptor registered for the key, for any other key it returns None.
\<close>

theorem get_parameter_total:
  "(param_name \<in> set (dict_keys PARAMETERS) \<longrightarrow>
      (\<exists>!d. (param_name, d) \<in> set PARAMETERS) \<and>
      (\<exists>d. (param_name, d) \<in> set PARAMETERS \<and> get_parameter param_name = Some d))
   \<and> (param_name \<notin> set (dict_keys PARAMETERS) \<longrightarrow> get_parameter param_name = None)"
proof (intro conjI impI)
  assume "param_name \<in> set (dict_keys PARAMETERS)"
  then obtain d where d: "(param_name, d) \<in> set PARAMETERS"
    by (auto simp: dict_keys_def)
  then have g: "get_parameter param_name = Some d"
    by (rule get_parameter_member)
  with d show "\<exists>d. (param_name, d) \<in> set PARAMETERS \<and> get_parameter param_name = Some d"
    by blast
  show "\<exists>!d. (param_name, d) \<in> set PARAMETERS"
  proof (rule ex1I [of _ d])
    show "(param_name, d) \<in> set PARAMETERS" by (rule d)
  next
    fix d'
    assume "(param_name, d') \<in> set PARAMETERS"
    then have "get_parameter param_name = Some d'"
      by (rule get_parameter_member)
    with g show "d' = d" by simp
  qed
next
  assume "param_name \<notin> set (dict_keys PARAMETERS)"
  then show "get_parameter param_name = None"
    by (simp add: get_parameter_def dict_get_def dict_keys_def map_of_eq_None_iff)
qed

lemma PLMN_N_7_absent: "PLMN_N 7 \<notin> set (dict_keys PARAMETERS)"
  unfolding PARAMETERS_all_items range_plmns
  by (simp add: dict_keys_def PARAMETERS_items_def plmn_entries_def)

lemma TAC_present: "TAC \<in> set (dict_keys PARAMETERS)"
  unfolding PARAMETERS_all_items
  by (simp add: dict_keys_def PARAMETERS_items_def)

theorem get_parameter_total_witness:
  "TAC \<in> set (dict_keys PARAMETERS)
   \<and> (\<exists>d. (TAC, d) \<in> set PARAMETERS \<and> get_parameter TAC = Some d)
   \<and> PLMN_N 7 \<notin> set (dict_keys PARAMETERS)
   \<and> get_parameter (PLMN_N 7) = None"
  using get_parameter_total [of TAC] get_parameter_total [of "PLMN_N 7"]
    TAC_present PLMN_N_7_absent
  by blast

lemma dict_get_foldl_add_numbered:
  "dict_get (foldl add_numbered d is) (PLMN_N j) =
     (if j \<in> set is
      then Some [PLMN_N_CELL_RESERVED j, PLMN_N_ENABLE j, PLMN_N_PRIMARY j, PLMN_N_PLMNID j]
      else dict_get d (PLMN_N j))"
  by (induction "is" rule: rev_induct) (auto simp: add_numbered_def dict_get_dict_set)

lemma get_num_plmns_6: "get_num_plmns = 6"
  by (simp add: get_num_plmns_def NUM_PLMNS_IN_CONFIG_def)

text \<open>
  C8. \<^verbatim>\<open>get_num_plmns\<close> is 6, and for every index from 1 to 6 the catalogue has an
  OBJECT descriptor for the numbered PLMN entry, \<^verbatim>\<open>get_numbered_param_names\<close> maps
  the entry to its four child keys (cell reserved, enable, primary, PLMN id), and each child
  key has a descriptor.
\<close>

theorem plmn_entries_registered:
  "get_num_plmns = 6
   \<and> (1 \<le> i \<and> i \<le> get_num_plmns \<longrightarrow>
        (\<exists>p. get_parameter (PLMN_N i) = Some p \<and> wireType p = OBJECT)
        \<and> dict_get get_numbered_param_names (PLMN_N i)
            = Some [PLMN_N_CELL_RESERVED i, PLMN_N_ENABLE i, PLMN_N_PRIMARY i, PLMN_N_PLMNID i]
        \<and> (\<forall>c \<in> set [PLMN_N_CELL_RESERVED i, PLMN_N_ENABLE i, PLMN_N_PRIMARY i, PLMN_N_PLMNID i].
              \<exists>d. get_parameter c = Some d))"
proof (intro conjI impI)
  show "get_num_plmns = 6" by (rule get_num_plmns_6)
next
  assume "1 \<le> i \<and> i \<le> get_num_plmns"
  then have lo: "1 \<le> i" and hi: "i \<le> NUM_PLMNS_IN_CONFIG"
    by (simp_all add: get_num_plmns_def)
  have "(PLMN_N i, TrParam (FAPSERVICE_PATH @ ''CellConfig.LTE.EPC.PLMNList.'' @ str_int i @ ''.'')
           True OBJECT False) \<in> set PARAMETERS"
    by (rule plmn_entries_member [OF lo hi]) (simp add: plmn_entries_def)
  then have "get_parameter (PLMN_N i)
      = Some (TrParam (FAPSERVICE_PATH @ ''CellConfig.LTE.EPC.PLMNList.'' @ str_int i @ ''.'')
           True OBJECT False)"
    by (rule get_parameter_member)
  then show "\<exists>p. get_parameter (PLMN_N i) = Some p \<and> wireType p = OBJECT"
    by simp
  from lo hi show "dict_get get_numbered_param_names (PLMN_N i)
            = Some [PLMN_N_CELL_RESERVED i, PLMN_N_ENABLE i, PLMN_N_PRIMARY i, PLMN_N_PLMNID i]"
    by (simp add: get_numbered_param_names_def dict_get_foldl_add_numbered range_def)
  show "\<forall>c \<in> set [PLMN_N_CELL_RESERVED i, PLMN_N_ENABLE i, PLMN_N_PRIMARY i, PLMN_N_PLMNID i].
              \<exists>d. get_parameter c = Some d"
  proof
    fix c
    assume "c \<in> set [PLMN_N_CELL_RESERVED i, PLMN_N_ENABLE i, PLMN_N_PRIMARY i, PLMN_N_PLMNID i]"
    then have "c \<in> fst ` set (plmn_entries i)"
      by (auto simp: plmn_entries_def)
    then obtain d where "(c, d) \<in> set (plmn_entries i)"
      by auto
    then have "(c, d) \<in> set PARAMETERS"
      by (rule plmn_entries_member [OF lo hi])
    then have "get_parameter c = Some d"
      by (rule get_parameter_member)
    then show "\<exists>d. get_parameter c = Some d" ..
  qed
qed

theorem plmn_entries_registered_witness:
  "(1::int) \<le> 3 \<and> 3 \<le> get_num_plmns
   \<and> (\<exists>p. get_parameter (PLMN_N 3) = Some p \<and> wireType p = OBJECT)
   \<and> dict_get get_numbered_param_names (PLMN_N 3)
       = Some [PLMN_N_CELL_RESERVED 3, PLMN_N_ENABLE 3, PLMN_N_PRIMARY 3, PLMN_N_PLMNID 3]
   \<and> (\<exists>d. get_parameter (PLMN_N_PLMNID 3) = Some d)"
proof -
  have h: "(1::int) \<le> 3 \<and> 3 \<le> get_num_plmns"
    by (simp add: get_num_plmns_6)
  with plmn_entries_registered [of 3] show ?thesis
    by simp
qed

end
